theory Spec2Isabelle
  imports Main
begin

section \<open>Values and failures\<close>

text \<open>
  JSON values: configuration documents and response bodies are JavaScript object
  literals; an object is the list of its key/value pairs in the order written.
\<close>

datatype json =
    JNull
  | JBool bool
  | JNum int
  | JStr string
  | JArr "json list"
  | JObj "(string \<times> json) list"

text \<open>
  A thrown JavaScript \<open>Error\<close>: its \<open>name\<close>, its \<open>message\<close> and the optional
  \<open>code\<close> property that the peer-routing engine sets on its failures.
\<close>

record js_error =
  name :: string
  message :: string
  code :: "string option"

text \<open>\<open>Error.prototype.toString\<close> of ECMAScript.\<close>

definition toString :: "js_error \<Rightarrow> string" where
  "toString err =
     (if name err = [] then message err
      else if message err = [] then name err
      else name err @ '': '' @ message err)"

definition TypeError :: "string \<Rightarrow> js_error" where
  "TypeError msg = \<lparr>name = ''TypeError'', message = msg, code = None\<rparr>"

text \<open>
  \<open>xs.map(f)\<close> where \<open>f\<close> may throw: the elements are visited from the left and the
  first exception leaves the loop.
\<close>

fun map_throwing :: "('a \<Rightarrow> js_error + 'b) \<Rightarrow> 'a list \<Rightarrow> js_error + 'b list" where
  "map_throwing f [] = Inr []"
| "map_throwing f (x # xs) =
     (case f x of
        Inl err \<Rightarrow> Inl err
      | Inr y \<Rightarrow> (case map_throwing f xs of Inl err \<Rightarrow> Inl err | Inr ys \<Rightarrow> Inr (y # ys)))"

section \<open>Bootstrap reset\<close>

text \<open>
  A configuration document is an object read by field name. The repository is the
  \<open>repo\<close> argument of \<open>createReset\<close>: \<open>repo.config.getAll(options)\<close> and
  \<open>repo.config.replace(config)\<close>, each of which may fail and may change the
  repository's state \<open>'r\<close>.
\<close>

type_synonym document = "string \<rightharpoonup> json"

record ('o, 'r) repo_config =
  getAll :: "'o \<Rightarrow> 'r \<Rightarrow> (js_error + document) \<times> 'r"
  replace :: "document \<Rightarrow> 'r \<Rightarrow> (js_error + unit) \<times> 'r"

record 'm reset_result =
  Peers :: "'m list"

text \<open>
  \<open>defaultConfig().Bootstrap.map(ma => new Multiaddr(ma))\<close>: reading \<open>map\<close> from a
  missing field, or from a value that is not an array, throws a \<open>TypeError\<close>; the
  \<open>Multiaddr\<close> constructor may throw on an entry.
\<close>

definition default_peers ::
  "(unit \<Rightarrow> document) \<Rightarrow> (json \<Rightarrow> js_error + 'm) \<Rightarrow> js_error + 'm list" where
  "default_peers defaultConfig Multiaddr =
     (case defaultConfig () ''Bootstrap'' of
        Some (JArr bootstrap) \<Rightarrow> map_throwing Multiaddr bootstrap
      | _ \<Rightarrow> Inl (TypeError ''defaultConfig(...).Bootstrap.map is not a function''))"

text \<open>
  \<open>reset\<close> of \<open>createReset\<close>. The template \<open>defaultConfig\<close> (module
  \<open>ipfs-core-config/config\<close>) and the \<open>Multiaddr\<close> constructor are imported by the
  source and are parameters here. The result is the outcome of the call paired with
  the repository's state after it.
\<close>

definition reset ::
  "('o, 'r) repo_config \<Rightarrow> (unit \<Rightarrow> document) \<Rightarrow> (json \<Rightarrow> js_error + 'm) \<Rightarrow>
     'o \<Rightarrow> 'r \<Rightarrow> (js_error + 'm reset_result) \<times> 'r" where
  "reset repo defaultConfig Multiaddr options r =
     (case getAll repo options r of
        (Inl err, r1) \<Rightarrow> (Inl err, r1)
      | (Inr config, r1) \<Rightarrow>
          (let config' = config(''Bootstrap'' := defaultConfig () ''Bootstrap'') in
           case replace repo config' r1 of
             (Inl err, r2) \<Rightarrow> (Inl err, r2)
           | (Inr _, r2) \<Rightarrow>
               (case default_peers defaultConfig Multiaddr of
                  Inl err \<Rightarrow> (Inl err, r2)
                | Inr peers \<Rightarrow> (Inr \<lparr>Peers = peers\<rparr>, r2))))"

text \<open>
  The repository as a store holding one document: \<open>getAll\<close> reads it and
  \<open>replace\<close> overwrites it whole.
\<close>

definition store_repo :: "('o, document) repo_config" where
  "store_repo =
     \<lparr>getAll = (\<lambda>options stored. (Inr stored, stored)),
      replace = (\<lambda>config stored. (Inr (), config))\<rparr>"

section \<open>Request validation\<close>

text \<open>
  Values of request parameters. The server's query-string parser delivers a string
  for a parameter given once and an array of strings for a parameter given several
  times; validation may turn a value into a number, a byte buffer or a content
  identifier (of the opaque type \<open>'c\<close>). An absent parameter is \<open>undefined\<close>.
\<close>

datatype 'c param =
    PStr string
  | PNum int
  | PBuf string
  | PArr "'c param list"
  | PCid 'c

type_synonym 'c params = "string \<rightharpoonup> 'c param"

text \<open>
  A Joi schema for one value takes the value (or \<open>undefined\<close>) and gives the
  converted value or the message of the validation error.
\<close>

type_synonym 'c schema = "'c param option \<Rightarrow> string + 'c param option"

definition Joi_string :: "'c schema" where
  "Joi_string v =
     (case v of
        None \<Rightarrow> Inr None
      | Some (PStr s) \<Rightarrow>
          if s = [] then Inl ''is not allowed to be empty'' else Inr (Some (PStr s))
      | Some _ \<Rightarrow> Inl ''must be a string'')"

definition Joi_binary :: "'c schema" where
  "Joi_binary v =
     (case v of
        None \<Rightarrow> Inr None
      | Some (PStr s) \<Rightarrow> Inr (Some (PBuf s))
      | Some (PBuf b) \<Rightarrow> Inr (Some (PBuf b))
      | Some _ \<Rightarrow> Inl ''must be a buffer or a string'')"

definition Joi_array :: "'c schema" where
  "Joi_array v =
     (case v of
        None \<Rightarrow> Inr None
      | Some (PArr xs) \<Rightarrow> Inr (Some (PArr xs))
      | Some _ \<Rightarrow> Inl ''must be an array'')"

text \<open>The rule \<open>.length(n)\<close> of an array schema.\<close>

definition array_length :: "nat \<Rightarrow> 'c schema \<Rightarrow> 'c schema" where
  "array_length n S v =
     (case S v of
        Inr (Some (PArr xs)) \<Rightarrow>
          if length xs = n then Inr (Some (PArr xs)) else Inl ''does not contain the required number of items''
      | other \<Rightarrow> other)"

text \<open>The rule \<open>.items(T)\<close>: every item has to match \<open>T\<close> and is replaced by its conversion.\<close>

fun validate_items :: "'c schema \<Rightarrow> 'c param list \<Rightarrow> string + 'c param list" where
  "validate_items T [] = Inr []"
| "validate_items T (x # xs) =
     (case T (Some x) of
        Inl msg \<Rightarrow> Inl msg
      | Inr None \<Rightarrow> Inl ''must not be a sparse array item''
      | Inr (Some y) \<Rightarrow>
          (case validate_items T xs of Inl msg \<Rightarrow> Inl msg | Inr ys \<Rightarrow> Inr (y # ys)))"

definition array_items :: "'c schema \<Rightarrow> 'c schema \<Rightarrow> 'c schema" where
  "array_items T S v =
     (case S v of
        Inr (Some (PArr xs)) \<Rightarrow>
          (case validate_items T xs of Inl msg \<Rightarrow> Inl msg | Inr ys \<Rightarrow> Inr (Some (PArr ys)))
      | other \<Rightarrow> other)"

text \<open>\<open>.required()\<close> and \<open>.default(d)\<close>.\<close>

definition required :: "'c schema \<Rightarrow> 'c schema" where
  "required S v = (case v of None \<Rightarrow> Inl ''is required'' | Some x \<Rightarrow> S (Some x))"

definition default_to :: "'c param \<Rightarrow> 'c schema \<Rightarrow> 'c schema" where
  "default_to d S v = (case v of None \<Rightarrow> Inr (Some d) | Some x \<Rightarrow> S (Some x))"

text \<open>
  The schemas whose parsing is not in the source file: \<open>Joi.cid()\<close> and
  \<open>Joi.timeout()\<close> are extensions defined in \<open>utils/joi.js\<close>, and
  \<open>Joi.number().integer()\<close> parses a number out of a string. They are parameters.
\<close>

record 'c joi_extensions =
  Joi_cid :: "'c schema"
  Joi_timeout :: "'c schema"
  Joi_number_integer :: "'c schema"

text \<open>
  Object schemas: \<open>Joi.object().keys({...})\<close> followed by \<open>.rename(from, to, options)\<close>.
  The field \<open>keep_alias\<close> is Joi's option \<open>alias\<close>.
\<close>

record rename_options =
  keep_alias :: bool
  multiple :: bool
  override :: bool
  ignoreUndefined :: bool

definition rename_defaults :: rename_options where
  "rename_defaults = \<lparr>keep_alias = False, multiple = False, override = False, ignoreUndefined = False\<rparr>"

record 'c object_schema =
  keys :: "(string \<times> 'c schema) list"
  renames :: "(string \<times> string \<times> rename_options) list"

definition Joi_object_keys :: "(string \<times> 'c schema) list \<Rightarrow> 'c object_schema" where
  "Joi_object_keys ks = \<lparr>keys = ks, renames = []\<rparr>"

definition rename :: "string \<Rightarrow> string \<Rightarrow> rename_options \<Rightarrow> 'c object_schema \<Rightarrow> 'c object_schema" where
  "rename from to opts S = S\<lparr>renames := renames S @ [(from, to, opts)]\<rparr>"

text \<open>
  Joi applies the renames, in the order declared, before it validates the keys. A
  rename matches when the object has the key \<open>from\<close> (a parsed query string has no
  key whose value is \<open>undefined\<close>, so \<open>ignoreUndefined\<close> never excludes a key that is
  there). \<open>renamed\<close> lists the targets written so far.
\<close>

fun apply_renames ::
  "(string \<times> string \<times> rename_options) list \<Rightarrow> string list \<Rightarrow> 'c params \<Rightarrow> string + 'c params" where
  "apply_renames [] renamed value = Inr value"
| "apply_renames ((from, to, opts) # rest) renamed value =
     (if value from = None then apply_renames rest renamed value
      else if from = to then apply_renames rest renamed value
      else if \<not> multiple opts \<and> to \<in> set renamed
        then Inl (from @ '' cannot be renamed because multiple renames are disabled'')
      else if value to \<noteq> None \<and> \<not> override opts \<and> to \<notin> set renamed
        then Inl (from @ '' cannot be renamed because override is disabled'')
      else
        (let value1 = value(to := value from);
             value2 = (if keep_alias opts then value1 else value1(from := None))
         in apply_renames rest (to # renamed) value2))"

text \<open>The keys are validated in the order declared; the first error ends validation.\<close>

fun validate_keys :: "(string \<times> 'c schema) list \<Rightarrow> 'c params \<Rightarrow> string + 'c params" where
  "validate_keys [] value = Inr value"
| "validate_keys ((k, S) # rest) value =
     (case S (value k) of
        Inl msg \<Rightarrow> Inl (k @ '' '' @ msg)
      | Inr v \<Rightarrow> validate_keys rest (value(k := v)))"

record validate_options =
  allowUnknown :: bool
  stripUnknown :: bool

definition validate_object ::
  "validate_options \<Rightarrow> 'c object_schema \<Rightarrow> 'c params \<Rightarrow> string + 'c params" where
  "validate_object prefs S value =
     (case apply_renames (renames S) [] value of
        Inl msg \<Rightarrow> Inl msg
      | Inr value1 \<Rightarrow>
          (case validate_keys (keys S) value1 of
             Inl msg \<Rightarrow> Inl msg
           | Inr value2 \<Rightarrow>
               if stripUnknown prefs then Inr (value2 |` set (map fst (keys S)))
               else if allowUnknown prefs then Inr value2
               else if dom value2 \<subseteq> set (map fst (keys S)) then Inr value2
               else Inl ''is not allowed''))"

section \<open>Requests, failures and responses\<close>

text \<open>
  Of a request the handlers read \<open>request.app.signal\<close> and \<open>request.query\<close>. The
  cancellation signal is read as a function of the number of events the engine has
  produced so far: \<open>app_signal request k\<close> holds when the signal has fired by then.
\<close>

record 'c request =
  app_signal :: "nat \<Rightarrow> bool"
  query :: "'c params"

text \<open>The options object \<open>{ signal, timeout }\<close> forwarded to the engine.\<close>

record 'c call_options =
  signal :: "nat \<Rightarrow> bool"
  timeout :: "'c param option"

record 'c provs_options = "'c call_options" +
  numProviders :: "'c param option"

text \<open>
  What a route ends with when it does not answer: one of the three calls to \<open>Boom\<close>
  (\<open>Boom.badRequest(message)\<close> is the framework's answer to a validation error), or
  an exception that leaves the handler as it was thrown.
\<close>

datatype failure =
    Boom_badRequest string
  | Boom_notFound string
  | Boom_boomify js_error string
  | Thrown js_error

text \<open>\<open>h.response(body)\<close> and \<open>h.response()\<close>.\<close>

datatype response = Response json | EmptyResponse

text \<open>
  The route: the framework validates \<open>request.query\<close> against
  \<open>options.validate.query\<close> with \<open>options.validate.options\<close>; on an error it answers
  bad request and the handler does not run, otherwise the handler runs on the
  validated query.
\<close>

definition route ::
  "validate_options \<Rightarrow> 'c object_schema \<Rightarrow> ('c request \<Rightarrow> 'e \<Rightarrow> (failure + 'a) \<times> 'e) \<Rightarrow>
     'c request \<Rightarrow> 'e \<Rightarrow> (failure + 'a) \<times> 'e" where
  "route prefs schema handler request e =
     (case validate_object prefs schema (query request) of
        Inl msg \<Rightarrow> (Inl (Boom_badRequest msg), e)
      | Inr validated \<Rightarrow> handler (request\<lparr>query := validated\<rparr>) e)"

section \<open>Lazy sequences and the streaming response\<close>

text \<open>
  An async iterable is a step function on the state of the iteration together with
  the current state: a call of \<open>next()\<close> yields a value and the following state,
  or ends the sequence, or throws.
\<close>

datatype ('a, 's) step = Yield 'a 's | Done | Fail js_error

type_synonym ('a, 's) source = "('s \<Rightarrow> ('a, 's) step) \<times> 's"

text \<open>\<open>map(source, func)\<close> of \<open>it-map\<close>, and \<open>pipe(source, transform)\<close> of \<open>it-pipe\<close>.\<close>

definition it_map :: "('a \<Rightarrow> 'b) \<Rightarrow> ('a, 's) source \<Rightarrow> ('b, 's) source" where
  "it_map func source =
     (\<lambda>s. case fst source s of
             Yield a s' \<Rightarrow> Yield (func a) s'
           | Done \<Rightarrow> Done
           | Fail err \<Rightarrow> Fail err,
      snd source)"

definition pipe :: "'a \<Rightarrow> ('a \<Rightarrow> 'b) \<Rightarrow> 'b" where
  "pipe source transform = transform source"


text \<open>
  Modelled from the spec: \<open>streamResponse\<close> of \<open>utils/stream-response.js\<close> is not
  among the source files. How a streaming response ends, and what it has done by
  then: the envelopes written, the number of calls of \<open>next()\<close> on the source, and
  whether the sequence completed, the signal cancelled it, or the source failed (the
  failure is recorded).
\<close>

datatype stream_end = Completed | Cancelled | Failed js_error

record 'a stream_result =
  written :: "'a list"
  reads :: nat
  ending :: stream_end

definition map_result :: "('a \<Rightarrow> 'b) \<Rightarrow> 'a stream_result \<Rightarrow> 'b stream_result" where
  "map_result f r = \<lparr>written = map f (written r), reads = reads r, ending = ending r\<rparr>"

text \<open>
  Modelled from the spec: the loop of \<open>streamResponse\<close>. The specification's
  streaming encoder (4.3) and its design note (9) describe a pump loop that observes
  the cancellation signal at each iteration, stops consuming the source when the
  signal has fired, writes one envelope for each event in the order produced, ends
  an empty sequence at once without an error, and ends at a failure of the source,
  recording it.

  \<open>k\<close> counts the calls of \<open>next()\<close> made so far and \<open>out\<close> is what has been written.
  The sequence may be unbounded, so the loop runs on fuel: \<open>None\<close> is a loop that
  has not returned when the fuel is used up.
\<close>

fun pump ::
  "nat \<Rightarrow> (nat \<Rightarrow> bool) \<Rightarrow> ('s \<Rightarrow> ('a, 's) step) \<Rightarrow> 's \<Rightarrow> nat \<Rightarrow> 'a list \<Rightarrow>
     'a stream_result option" where
  "pump 0 fired nxt s k out = None"
| "pump (Suc fuel) fired nxt s k out =
     (if fired (length out) then Some \<lparr>written = out, reads = k, ending = Cancelled\<rparr>
      else
        (case nxt s of
           Yield a s' \<Rightarrow> pump fuel fired nxt s' (Suc k) (out @ [a])
         | Done \<Rightarrow> Some \<lparr>written = out, reads = Suc k, ending = Completed\<rparr>
         | Fail err \<Rightarrow> Some \<lparr>written = out, reads = Suc k, ending = Failed err\<rparr>))"

text \<open>
  Modelled from the spec: \<open>streamResponse(request, h, getSource)\<close> pumps the sequence
  that \<open>getSource()\<close> returns, under the signal of the request.
\<close>

definition streamResponse ::
  "nat \<Rightarrow> 'c request \<Rightarrow> (unit \<Rightarrow> ('a, 's) source) \<Rightarrow> 'a stream_result option" where
  "streamResponse fuel request getSource =
     (case getSource () of (nxt, s) \<Rightarrow> pump fuel (app_signal request) nxt s 0 [])"

section \<open>The resources of the DHT API\<close>

text \<open>
  What the engine gives for a peer: \<open>id\<close> (the field \<open>id'\<close> here, \<open>id\<close> being the
  identity function of HOL) and the optional \<open>addrs\<close>. The types of peer ids \<open>'p\<close>
  and of addresses \<open>'m\<close> are the engine's; their \<open>toString()\<close> methods are the
  parameters \<open>id_toString\<close> and \<open>addr_toString\<close> of the handlers.
\<close>

record ('p, 'm) peer_info =
  id' :: 'p
  addrs :: "'m list option"

text \<open>\<open>(addrs || [])\<close>.\<close>

definition or_empty :: "'m list option \<Rightarrow> 'm list" where
  "or_empty xs = (case xs of None \<Rightarrow> [] | Some as \<Rightarrow> as)"

subsection \<open>findPeer\<close>

definition findPeerResource_validate_options :: validate_options where
  "findPeerResource_validate_options = \<lparr>allowUnknown = True, stripUnknown = True\<rparr>"

definition findPeerResource_validate_query :: "'c joi_extensions \<Rightarrow> 'c object_schema" where
  "findPeerResource_validate_query Joi =
     rename ''arg'' ''peerId'' (rename_defaults\<lparr>override := True, ignoreUndefined := True\<rparr>)
       (Joi_object_keys
          [(''peerId'', required Joi_string),
           (''timeout'', Joi_timeout Joi)])"

text \<open>The body of the response of \<open>findPeer\<close>.\<close>

definition findPeer_envelope :: "('p \<Rightarrow> string) \<Rightarrow> ('m \<Rightarrow> string) \<Rightarrow> ('p, 'm) peer_info \<Rightarrow> json" where
  "findPeer_envelope id_toString addr_toString res =
     JObj
       [(''Responses'',
           JArr [JObj [(''ID'', JStr (id_toString (id' res))),
                       (''Addrs'', JArr (map (\<lambda>a. JStr (addr_toString a)) (or_empty (addrs res))))]]),
        (''Type'', JNum 2)]"

definition findPeerResource_handler ::
  "('p \<Rightarrow> string) \<Rightarrow> ('m \<Rightarrow> string) \<Rightarrow>
   ('c param option \<Rightarrow> 'c call_options \<Rightarrow> 'e \<Rightarrow> (js_error + ('p, 'm) peer_info) \<times> 'e) \<Rightarrow>
   'c request \<Rightarrow> 'e \<Rightarrow> (failure + response) \<times> 'e" where
  "findPeerResource_handler id_toString addr_toString dht_findPeer request e =
     (let peerId = query request ''peerId'';
          timeout = query request ''timeout''
      in case dht_findPeer peerId \<lparr>signal = app_signal request, timeout = timeout\<rparr> e of
           (Inl err, e') \<Rightarrow>
             if code err = Some ''ERR_LOOKUP_FAILED''
             then (Inl (Boom_notFound (toString err)), e')
             else (Inl (Boom_boomify err (toString err)), e')
         | (Inr res, e') \<Rightarrow>
             (Inr (Response (findPeer_envelope id_toString addr_toString res)), e'))"

subsection \<open>findProvs\<close>

definition findProvsResource_validate_options :: validate_options where
  "findProvsResource_validate_options = \<lparr>allowUnknown = True, stripUnknown = True\<rparr>"

definition findProvsResource_validate_query :: "'c joi_extensions \<Rightarrow> 'c object_schema" where
  "findProvsResource_validate_query Joi =
     rename ''num-providers'' ''numProviders'' (rename_defaults\<lparr>override := True, ignoreUndefined := True\<rparr>)
       (rename ''arg'' ''cid'' (rename_defaults\<lparr>override := True, ignoreUndefined := True\<rparr>)
          (Joi_object_keys
             [(''cid'', required (Joi_cid Joi)),
              (''numProviders'', default_to (PNum 20) (Joi_number_integer Joi)),
              (''timeout'', Joi_timeout Joi)]))"

text \<open>The function mapped over the providers.\<close>

definition findProvs_envelope :: "('p \<Rightarrow> string) \<Rightarrow> ('m \<Rightarrow> string) \<Rightarrow> ('p, 'm) peer_info \<Rightarrow> json" where
  "findProvs_envelope id_toString addr_toString ev =
     JObj
       [(''Responses'',
           JArr [JObj [(''ID'', JStr (id_toString (id' ev))),
                       (''Addrs'', JArr (map (\<lambda>a. JStr (addr_toString a)) (or_empty (addrs ev))))]]),
        (''Type'', JNum 4)]"

definition findProvs_call ::
  "('c param option \<Rightarrow> 'c provs_options \<Rightarrow> (('p, 'm) peer_info, 's) source) \<Rightarrow>
   'c request \<Rightarrow> (('p, 'm) peer_info, 's) source" where
  "findProvs_call dht_findProvs request =
     dht_findProvs (query request ''cid'')
       \<lparr>signal = app_signal request, timeout = query request ''timeout'',
        numProviders = query request ''numProviders''\<rparr>"

definition findProvsResource_handler ::
  "nat \<Rightarrow> ('p \<Rightarrow> string) \<Rightarrow> ('m \<Rightarrow> string) \<Rightarrow>
   ('c param option \<Rightarrow> 'c provs_options \<Rightarrow> (('p, 'm) peer_info, 's) source) \<Rightarrow>
   'c request \<Rightarrow> json stream_result option" where
  "findProvsResource_handler fuel id_toString addr_toString dht_findProvs request =
     streamResponse fuel request
       (\<lambda>_. pipe (findProvs_call dht_findProvs request)
               (\<lambda>source. it_map (findProvs_envelope id_toString addr_toString) source))"

subsection \<open>get\<close>

definition getResource_validate_options :: validate_options where
  "getResource_validate_options = \<lparr>allowUnknown = True, stripUnknown = True\<rparr>"

definition getResource_validate_query :: "'c joi_extensions \<Rightarrow> 'c object_schema" where
  "getResource_validate_query Joi =
     rename ''arg'' ''buffer'' (rename_defaults\<lparr>override := True, ignoreUndefined := True\<rparr>)
       (Joi_object_keys
          [(''buffer'', required Joi_binary),
           (''timeout'', Joi_timeout Joi)])"

definition get_envelope :: "('v \<Rightarrow> string) \<Rightarrow> 'v \<Rightarrow> json" where
  "get_envelope value_toString res = JObj [(''Extra'', JStr (value_toString res)), (''Type'', JNum 5)]"

definition getResource_handler ::
  "('v \<Rightarrow> string) \<Rightarrow>
   ('c param option \<Rightarrow> 'c call_options \<Rightarrow> 'e \<Rightarrow> (js_error + 'v) \<times> 'e) \<Rightarrow>
   'c request \<Rightarrow> 'e \<Rightarrow> (failure + response) \<times> 'e" where
  "getResource_handler value_toString dht_get request e =
     (let buffer = query request ''buffer'';
          timeout = query request ''timeout''
      in case dht_get buffer \<lparr>signal = app_signal request, timeout = timeout\<rparr> e of
           (Inl err, e') \<Rightarrow> (Inl (Thrown err), e')
         | (Inr res, e') \<Rightarrow> (Inr (Response (get_envelope value_toString res)), e'))"

subsection \<open>provide\<close>

definition provideResource_validate_options :: validate_options where
  "provideResource_validate_options = \<lparr>allowUnknown = True, stripUnknown = True\<rparr>"

definition provideResource_validate_query :: "'c joi_extensions \<Rightarrow> 'c object_schema" where
  "provideResource_validate_query Joi =
     rename ''arg'' ''cid'' (rename_defaults\<lparr>override := True, ignoreUndefined := True\<rparr>)
       (Joi_object_keys
          [(''cid'', required (Joi_cid Joi)),
           (''timeout'', Joi_timeout Joi)])"

definition provideResource_handler ::
  "('c param option \<Rightarrow> 'c call_options \<Rightarrow> 'e \<Rightarrow> (js_error + unit) \<times> 'e) \<Rightarrow>
   'c request \<Rightarrow> 'e \<Rightarrow> (failure + response) \<times> 'e" where
  "provideResource_handler dht_provide request e =
     (let cid = query request ''cid'';
          timeout = query request ''timeout''
      in case dht_provide cid \<lparr>signal = app_signal request, timeout = timeout\<rparr> e of
           (Inl err, e') \<Rightarrow> (Inl (Thrown err), e')
         | (Inr _, e') \<Rightarrow> (Inr EmptyResponse, e'))"

subsection \<open>put\<close>

definition putResource_validate_options :: validate_options where
  "putResource_validate_options = \<lparr>allowUnknown = True, stripUnknown = True\<rparr>"

definition putResource_validate_query :: "'c joi_extensions \<Rightarrow> 'c object_schema" where
  "putResource_validate_query Joi =
     Joi_object_keys
       [(''arg'', required (array_items Joi_binary (array_length 2 Joi_array))),
        (''timeout'', Joi_timeout Joi)]"

text \<open>
  The pattern \<open>arg: [key, value]\<close>: the first two values of the iteration of
  \<open>arg\<close>, \<open>undefined\<close> where it has fewer. An array iterates its items, a string its
  characters, a buffer its bytes; anything else is not iterable.
\<close>

fun nth_or_undefined :: "'a list \<Rightarrow> nat \<Rightarrow> 'a option" where
  "nth_or_undefined [] n = None"
| "nth_or_undefined (x # xs) 0 = Some x"
| "nth_or_undefined (x # xs) (Suc n) = nth_or_undefined xs n"

definition iterate_param :: "'c param option \<Rightarrow> js_error + 'c param list" where
  "iterate_param v =
     (case v of
        Some (PArr xs) \<Rightarrow> Inr xs
      | Some (PStr s) \<Rightarrow> Inr (map (\<lambda>c. PStr [c]) s)
      | Some (PBuf b) \<Rightarrow> Inr (map (\<lambda>c. PNum (int (of_char c))) b)
      | _ \<Rightarrow> Inl (TypeError ''arg is not iterable''))"

definition putResource_handler ::
  "('c param option \<Rightarrow> 'c param option \<Rightarrow> 'c call_options \<Rightarrow> 'e \<Rightarrow> (js_error + unit) \<times> 'e) \<Rightarrow>
   'c request \<Rightarrow> 'e \<Rightarrow> (failure + response) \<times> 'e" where
  "putResource_handler dht_put request e =
     (case iterate_param (query request ''arg'') of
        Inl err \<Rightarrow> (Inl (Thrown err), e)
      | Inr items \<Rightarrow>
          (let key = nth_or_undefined items 0;
               value = nth_or_undefined items 1;
               timeout = query request ''timeout''
           in case dht_put key value \<lparr>signal = app_signal request, timeout = timeout\<rparr> e of
                (Inl err, e') \<Rightarrow> (Inl (Thrown err), e')
              | (Inr _, e') \<Rightarrow> (Inr EmptyResponse, e')))"

text \<open>The route of \<open>put\<close>: validation, then the handler.\<close>

definition putResource ::
  "'c joi_extensions \<Rightarrow>
   ('c param option \<Rightarrow> 'c param option \<Rightarrow> 'c call_options \<Rightarrow> 'e \<Rightarrow> (js_error + unit) \<times> 'e) \<Rightarrow>
   'c request \<Rightarrow> 'e \<Rightarrow> (failure + response) \<times> 'e" where
  "putResource Joi dht_put =
     route putResource_validate_options (putResource_validate_query Joi) (putResource_handler dht_put)"

subsection \<open>query\<close>

definition queryResource_validate_options :: validate_options where
  "queryResource_validate_options = \<lparr>allowUnknown = True, stripUnknown = True\<rparr>"

definition queryResource_validate_query :: "'c joi_extensions \<Rightarrow> 'c object_schema" where
  "queryResource_validate_query Joi =
     rename ''arg'' ''peerId'' (rename_defaults\<lparr>override := True, ignoreUndefined := True\<rparr>)
       (Joi_object_keys
          [(''peerId'', required Joi_string),
           (''timeout'', Joi_timeout Joi)])"

definition query_envelope :: "('p \<Rightarrow> string) \<Rightarrow> ('p, 'm) peer_info \<Rightarrow> json" where
  "query_envelope id_toString ev = JObj [(''ID'', JStr (id_toString (id' ev)))]"

definition query_call ::
  "('c param option \<Rightarrow> 'c call_options \<Rightarrow> (('p, 'm) peer_info, 's) source) \<Rightarrow>
   'c request \<Rightarrow> (('p, 'm) peer_info, 's) source" where
  "query_call dht_query request =
     dht_query (query request ''peerId'')
       \<lparr>signal = app_signal request, timeout = query request ''timeout''\<rparr>"

definition queryResource_handler ::
  "nat \<Rightarrow> ('p \<Rightarrow> string) \<Rightarrow>
   ('c param option \<Rightarrow> 'c call_options \<Rightarrow> (('p, 'm) peer_info, 's) source) \<Rightarrow>
   'c request \<Rightarrow> json stream_result option" where
  "queryResource_handler fuel id_toString dht_query request =
     streamResponse fuel request
       (\<lambda>_. pipe (query_call dht_query request)
               (\<lambda>source. it_map (query_envelope id_toString) source))"

section \<open>The invariant of wire envelopes\<close>

text \<open>
  The specification's data model: a wire envelope has exactly one type discriminator
  (the field \<open>Type\<close>, an integer code) and a payload whose shape goes with it: a list
  of peer descriptors (an id and a list of address strings) for a peer response (2)
  and a provider response (4), a raw value for a value response (5).
\<close>

definition discriminators :: "json \<Rightarrow> json list" where
  "discriminators env =
     (case env of
        JObj kvs \<Rightarrow> map snd (filter (\<lambda>kv. fst kv = ''Type'') kvs)
      | _ \<Rightarrow> [])"

definition is_string :: "json \<Rightarrow> bool" where
  "is_string j = (case j of JStr s \<Rightarrow> True | _ \<Rightarrow> False)"

definition is_peer_descriptor :: "json \<Rightarrow> bool" where
  "is_peer_descriptor j =
     (case j of
        JObj [(k1, JStr i), (k2, JArr as)] \<Rightarrow> k1 = ''ID'' \<and> k2 = ''Addrs'' \<and> list_all is_string as
      | _ \<Rightarrow> False)"

definition payload_of :: "json \<Rightarrow> string \<Rightarrow> json option" where
  "payload_of env k = (case env of JObj kvs \<Rightarrow> map_of kvs k | _ \<Rightarrow> None)"

definition payload_consistent :: "int \<Rightarrow> json \<Rightarrow> bool" where
  "payload_consistent t env =
     (if t = 2 \<or> t = 4 then
        (case payload_of env ''Responses'' of
           Some (JArr ds) \<Rightarrow> list_all is_peer_descriptor ds
         | _ \<Rightarrow> False)
      else if t = 5 then
        (case payload_of env ''Extra'' of Some (JStr s) \<Rightarrow> True | _ \<Rightarrow> False)
      else False)"

definition wire_envelope_invariant :: "json \<Rightarrow> bool" where
  "wire_envelope_invariant env =
     (case discriminators env of
        [JNum t] \<Rightarrow> payload_consistent t env
      | _ \<Rightarrow> False)"

section \<open>Properties of bootstrap reset\<close>

lemma reset_returns_default_peers:
  assumes "fst (reset repo defaultConfig Multiaddr options r) = Inr res"
  shows "default_peers defaultConfig Multiaddr = Inr (Peers res)"
  using assms
  by (auto simp: reset_def Let_def split: prod.splits sum.splits)

text \<open>
  C1. Whatever document the store holds, bootstrap reset leaves in the store that
  document with the \<open>Bootstrap\<close> field alone replaced by the default list of the
  template, and returns as \<open>Peers\<close> the default list with every entry passed
  through the \<open>Multiaddr\<close> constructor.
\<close>

theorem reset_replaces_only_bootstrap:
  assumes "defaultConfig () ''Bootstrap'' = Some (JArr bootstrap)"
    and "map_throwing Multiaddr bootstrap = Inr peers"
  shows "reset store_repo defaultConfig Multiaddr options doc =
           (Inr \<lparr>Peers = peers\<rparr>, doc(''Bootstrap'' \<mapsto> JArr bootstrap))"
  using assms by (simp add: reset_def store_repo_def default_peers_def)

theorem reset_replaces_only_bootstrap_witness:
  "reset store_repo
     (\<lambda>_. [''Bootstrap'' \<mapsto> JArr [JStr ''/dnsaddr/bootstrap.libp2p.io'', JStr ''/ip4/104.131.131.82/tcp/4001'']])
     (\<lambda>ma. case ma of JStr s \<Rightarrow> Inr s | _ \<Rightarrow> Inl (TypeError ''invalid address''))
     ()
     [''A'' \<mapsto> JNum 1, ''B'' \<mapsto> JNum 2, ''Bootstrap'' \<mapsto> JArr [JStr ''/ip4/127.0.0.1/tcp/1'']]
   = (Inr \<lparr>Peers = [''/dnsaddr/bootstrap.libp2p.io'', ''/ip4/104.131.131.82/tcp/4001'']\<rparr>,
      [''A'' \<mapsto> JNum 1, ''B'' \<mapsto> JNum 2,
       ''Bootstrap'' \<mapsto> JArr [JStr ''/dnsaddr/bootstrap.libp2p.io'', JStr ''/ip4/104.131.131.82/tcp/4001'']])"
  using reset_replaces_only_bootstrap
    [of "\<lambda>_. [''Bootstrap'' \<mapsto> JArr [JStr ''/dnsaddr/bootstrap.libp2p.io'', JStr ''/ip4/104.131.131.82/tcp/4001'']]"
        "[JStr ''/dnsaddr/bootstrap.libp2p.io'', JStr ''/ip4/104.131.131.82/tcp/4001'']"
        "\<lambda>ma. case ma of JStr s \<Rightarrow> Inr s | _ \<Rightarrow> Inl (TypeError ''invalid address'')"
        "[''/dnsaddr/bootstrap.libp2p.io'', ''/ip4/104.131.131.82/tcp/4001'']"
        "()"
        "[''A'' \<mapsto> JNum 1, ''B'' \<mapsto> JNum 2, ''Bootstrap'' \<mapsto> JArr [JStr ''/ip4/127.0.0.1/tcp/1'']]"]
  by simp

text \<open>
  C9. The \<open>Peers\<close> that bootstrap reset returns come from the default template
  alone: two calls that succeed, on any two repositories in any states (so for any two
  documents read and whatever is persisted), return the same list, and that list
  is the template's \<open>Bootstrap\<close> list, evaluated again after the document has been
  replaced, passed through the \<open>Multiaddr\<close> constructor.
\<close>

theorem reset_peers_from_template_only:
  assumes "fst (reset repo1 defaultConfig Multiaddr options1 r1) = Inr res1"
    and "fst (reset repo2 defaultConfig Multiaddr options2 r2) = Inr res2"
  shows "Peers res1 = Peers res2 \<and> default_peers defaultConfig Multiaddr = Inr (Peers res1)"
  using reset_returns_default_peers [OF assms(1)] reset_returns_default_peers [OF assms(2)]
  by simp

theorem reset_peers_from_template_only_witness:
  "fst (reset store_repo
          (\<lambda>_. [''Bootstrap'' \<mapsto> JArr [JStr ''/dnsaddr/bootstrap.libp2p.io'']])
          (\<lambda>ma. case ma of JStr s \<Rightarrow> Inr s | _ \<Rightarrow> Inl (TypeError ''invalid address''))
          () [''A'' \<mapsto> JNum 1, ''Bootstrap'' \<mapsto> JArr [JStr ''/ip4/127.0.0.1/tcp/1'']])
     = Inr \<lparr>Peers = [''/dnsaddr/bootstrap.libp2p.io'']\<rparr>
   \<and> fst (reset store_repo
          (\<lambda>_. [''Bootstrap'' \<mapsto> JArr [JStr ''/dnsaddr/bootstrap.libp2p.io'']])
          (\<lambda>ma. case ma of JStr s \<Rightarrow> Inr s | _ \<Rightarrow> Inl (TypeError ''invalid address''))
          () [''B'' \<mapsto> JNum 2])
     = Inr \<lparr>Peers = [''/dnsaddr/bootstrap.libp2p.io'']\<rparr>
   \<and> Peers \<lparr>Peers = [''/dnsaddr/bootstrap.libp2p.io'']\<rparr> = Peers \<lparr>Peers = [''/dnsaddr/bootstrap.libp2p.io'']\<rparr>
   \<and> default_peers (\<lambda>_. [''Bootstrap'' \<mapsto> JArr [JStr ''/dnsaddr/bootstrap.libp2p.io'']])
          (\<lambda>ma. case ma of JStr s \<Rightarrow> Inr s | _ \<Rightarrow> Inl (TypeError ''invalid address''))
       = Inr (Peers \<lparr>Peers = [''/dnsaddr/bootstrap.libp2p.io'']\<rparr>)"
proof -
  let ?dc = "\<lambda>_::unit. [''Bootstrap'' \<mapsto> JArr [JStr ''/dnsaddr/bootstrap.libp2p.io'']]"
  let ?M = "\<lambda>ma. case ma of JStr s \<Rightarrow> Inr s | _ \<Rightarrow> Inl (TypeError ''invalid address'')"
  have a: "fst (reset store_repo ?dc ?M () [''A'' \<mapsto> JNum 1, ''Bootstrap'' \<mapsto> JArr [JStr ''/ip4/127.0.0.1/tcp/1'']])
     = Inr \<lparr>Peers = [''/dnsaddr/bootstrap.libp2p.io'']\<rparr>"
    by (simp add: reset_def store_repo_def default_peers_def)
  have b: "fst (reset store_repo ?dc ?M () [''B'' \<mapsto> JNum 2])
     = Inr \<lparr>Peers = [''/dnsaddr/bootstrap.libp2p.io'']\<rparr>"
    by (simp add: reset_def store_repo_def default_peers_def)
  from reset_peers_from_template_only [OF a b] a b show ?thesis by simp
qed

section \<open>Properties of the streaming response\<close>

text \<open>
  Mapping a function over the source commutes with the pump: the same reads are made
  and what is written is the image of what would be written for the source itself.
\<close>

lemma pump_it_map:
  "pump fuel fired (fst (it_map f (nxt, s0))) s k (map f out)
     = map_option (map_result f) (pump fuel fired nxt s k out)"
proof (induction fuel arbitrary: s k out)
  case 0
  show ?case by simp
next
  case (Suc fuel)
  show ?case
  proof (cases "nxt s")
    case (Yield a s')
    with Suc.IH [of s' "Suc k" "out @ [a]"] show ?thesis
      by (simp add: it_map_def map_result_def)
  next
    case Done
    then show ?thesis by (simp add: it_map_def map_result_def)
  next
    case (Fail err)
    then show ?thesis by (simp add: it_map_def map_result_def)
  qed
qed

lemma streamResponse_it_map:
  "streamResponse fuel request (\<lambda>_. pipe src (\<lambda>source. it_map f source))
     = map_option (map_result f) (streamResponse fuel request (\<lambda>_. src))"
proof (cases src)
  case (Pair nxt s0)
  have "snd (it_map f (nxt, s0)) = s0" by (simp add: it_map_def)
  moreover have "it_map f (nxt, s0) = (fst (it_map f (nxt, s0)), snd (it_map f (nxt, s0)))" by simp
  ultimately have e: "it_map f (nxt, s0) = (fst (it_map f (nxt, s0)), s0)" by simp
  show ?thesis
    unfolding streamResponse_def pipe_def Pair
    apply (subst e)
    using pump_it_map [of fuel "app_signal request" f nxt s0 s0 0 "[]"]
    by simp
qed

lemma streamResponse_pump:
  "streamResponse fuel request (\<lambda>_. src) = pump fuel (app_signal request) (fst src) (snd src) 0 []"
  by (simp add: streamResponse_def case_prod_beta)

lemma findProvs_handler_map:
  "findProvsResource_handler fuel id_toString addr_toString dht_findProvs request
     = map_option (map_result (findProvs_envelope id_toString addr_toString))
         (streamResponse fuel request (\<lambda>_. findProvs_call dht_findProvs request))"
  unfolding findProvsResource_handler_def by (rule streamResponse_it_map)

lemma query_handler_map:
  "queryResource_handler fuel id_toString dht_query request
     = map_option (map_result (query_envelope id_toString))
         (streamResponse fuel request (\<lambda>_. query_call dht_query request))"
  unfolding queryResource_handler_def by (rule streamResponse_it_map)


text \<open>
  Once the signal has fired after \<open>N\<close> events, a pump with more than \<open>N\<close> units of fuel
  returns, and it has read and written at most \<open>N\<close> values.
\<close>

lemma pump_cancelled:
  "fired N \<Longrightarrow> length out \<le> N \<Longrightarrow> k \<le> length out \<Longrightarrow> N - length out < fuel \<Longrightarrow>
     \<exists>r. pump fuel fired nxt s k out = Some r \<and> length (written r) \<le> N \<and> reads r \<le> N"
proof (induction fuel arbitrary: s k out)
  case 0
  then show ?case by simp
next
  case (Suc fuel)
  show ?case
  proof (cases "fired (length out)")
    case True
    with Suc.prems show ?thesis by simp
  next
    case False
    with Suc.prems have lt: "length out < N" by (cases "length out = N") auto
    show ?thesis
    proof (cases "nxt s")
      case (Yield a s')
      from lt Suc.prems have "\<exists>r. pump fuel fired nxt s' (Suc k) (out @ [a]) = Some r \<and> length (written r) \<le> N \<and> reads r \<le> N"
        by (intro Suc.IH) auto
      with False Yield show ?thesis by simp
    next
      case Done
      with False lt Suc.prems show ?thesis by simp
    next
      case (Fail err)
      with False lt Suc.prems show ?thesis by simp
    qed
  qed
qed

lemma streamResponse_cancelled:
  assumes "app_signal request N" and "N < fuel"
  shows "\<exists>r. streamResponse fuel request (\<lambda>_. src) = Some r \<and> length (written r) \<le> N \<and> reads r \<le> N"
  using pump_cancelled [of "app_signal request" N "[]" 0 fuel "fst src" "snd src"] assms
  by (simp add: streamResponse_pump)

section \<open>Properties of the envelopes\<close>

lemma list_all_is_string: "list_all is_string (map (\<lambda>a. JStr (f a)) xs)"
  by (induction xs) (simp_all add: is_string_def)

lemma list_all_map_const: "(\<And>x. P (f x)) \<Longrightarrow> list_all P (map f xs)"
  by (induction xs) simp_all

lemma findPeer_envelope_invariant:
  "wire_envelope_invariant (findPeer_envelope id_toString addr_toString res)"
  "discriminators (findPeer_envelope id_toString addr_toString res) = [JNum 2]"
  by (simp_all add: wire_envelope_invariant_def discriminators_def findPeer_envelope_def
      payload_consistent_def payload_of_def is_peer_descriptor_def list_all_is_string)

lemma findProvs_envelope_invariant:
  "wire_envelope_invariant (findProvs_envelope id_toString addr_toString ev)"
  "discriminators (findProvs_envelope id_toString addr_toString ev) = [JNum 4]"
  by (simp_all add: wire_envelope_invariant_def discriminators_def findProvs_envelope_def
      payload_consistent_def payload_of_def is_peer_descriptor_def list_all_is_string)

lemma get_envelope_invariant:
  "wire_envelope_invariant (get_envelope value_toString res)"
  "discriminators (get_envelope value_toString res) = [JNum 5]"
  by (simp_all add: wire_envelope_invariant_def discriminators_def get_envelope_def
      payload_consistent_def payload_of_def)

lemma query_envelope_no_discriminator:
  "discriminators (query_envelope id_toString ev) = []"
  "\<not> wire_envelope_invariant (query_envelope id_toString ev)"
  by (simp_all add: wire_envelope_invariant_def discriminators_def query_envelope_def)

section \<open>Properties of validation\<close>

text \<open>
  Validating the keys of an object schema leaves a key that the schema does not
  declare as it was, and gives each declared key the result of its own schema.
\<close>

lemma validate_keys_other:
  "validate_keys ks value = Inr value' \<Longrightarrow> k \<notin> fst ` set ks \<Longrightarrow> value' k = value k"
proof (induction ks arbitrary: "value")
  case Nil
  then show ?case by simp
next
  case (Cons p ks)
  obtain k0 S0 where p: "p = (k0, S0)" by (cases p)
  from Cons.prems p obtain v where v: "S0 (value k0) = Inr v"
    and rest: "validate_keys ks (value(k0 := v)) = Inr value'"
    by (auto split: sum.splits)
  from Cons.prems p have "k \<noteq> k0" and "k \<notin> fst ` set ks" by auto
  with Cons.IH [OF rest] show ?case by simp
qed

lemma validate_keys_lookup:
  "validate_keys ks value = Inr value' \<Longrightarrow> distinct (map fst ks) \<Longrightarrow> (k, S) \<in> set ks \<Longrightarrow>
     S (value k) = Inr (value' k)"
proof (induction ks arbitrary: "value")
  case Nil
  then show ?case by simp
next
  case (Cons p ks)
  obtain k0 S0 where p: "p = (k0, S0)" by (cases p)
  from Cons.prems p obtain v where v: "S0 (value k0) = Inr v"
    and rest: "validate_keys ks (value(k0 := v)) = Inr value'"
    by (auto split: sum.splits)
  show ?case
  proof (cases "(k, S) = (k0, S0)")
    case True
    from Cons.prems(2) p have "k0 \<notin> fst ` set ks" by simp
    from validate_keys_other [OF rest this] have "value' k0 = v" by simp
    with True v show ?thesis by simp
  next
    case False
    with Cons.prems p have mem: "(k, S) \<in> set ks" by auto
    with Cons.prems(2) p have "k \<noteq> k0" by (auto simp: image_iff)
    from Cons.prems(2) have "distinct (map fst ks)" by simp
    from Cons.IH [OF rest this mem] \<open>k \<noteq> k0\<close> show ?thesis by simp
  qed
qed

lemma validated_field_after_renames:
  assumes "apply_renames (renames S) [] q = Inr q1"
    and "q1 to = Some a"
    and "distinct (map fst (keys S))" and "(to, T) \<in> set (keys S)"
    and "stripUnknown prefs"
    and "validate_object prefs S q = Inr v"
  shows "T (Some a) = Inr (v to)"
proof -
  from assms(1,5,6) obtain v2 where k: "validate_keys (keys S) q1 = Inr v2"
    and v: "v = v2 |` set (map fst (keys S))"
    by (auto simp: validate_object_def split: sum.splits)
  from validate_keys_lookup [OF k assms(3,4)] assms(2) have "T (Some a) = Inr (v2 to)" by simp
  moreover from assms(4) have "to \<in> set (map fst (keys S))" by force
  ultimately show ?thesis using v by simp
qed

lemma required_string_value: "required Joi_string (Some a) = Inr w \<Longrightarrow> w = Some a"
  by (cases a) (auto simp: required_def Joi_string_def split: if_splits)

lemma required_some: "required T (Some a) = T (Some a)"
  by (simp add: required_def)

text \<open>
  The schema of the \<open>arg\<close> of \<open>put\<close> accepts arrays of exactly two strings or buffers
  and nothing else.
\<close>

lemma validate_items_binary:
  "validate_items Joi_binary xs = Inr ys \<Longrightarrow> x \<in> set xs \<Longrightarrow> \<exists>s. x = PStr s \<or> x = PBuf s"
proof (induction xs arbitrary: ys)
  case Nil
  then show ?case by simp
next
  case (Cons a xs)
  then show ?case
    by (cases a) (auto simp: Joi_binary_def split: sum.splits option.splits)
qed

lemma put_arg_schema_accepts:
  assumes "required (array_items Joi_binary (array_length 2 Joi_array)) v = Inr w"
  shows "\<exists>x y. v = Some (PArr [x, y]) \<and> (\<exists>s. x = PStr s \<or> x = PBuf s) \<and> (\<exists>s. y = PStr s \<or> y = PBuf s)"
proof -
  from assms obtain p where v: "v = Some p"
    by (cases v) (simp_all add: required_def)
  from assms v obtain xs where p: "p = PArr xs"
    by (cases p) (simp_all add: required_def array_items_def array_length_def Joi_array_def)
  from assms v p have len: "length xs = 2"
    by (simp add: required_def array_items_def array_length_def Joi_array_def split: if_splits)
  then obtain x y where xs: "xs = [x, y]"
    by (cases xs; cases "tl xs") auto
  from assms v p len obtain ys where "validate_items Joi_binary xs = Inr ys"
    by (simp add: required_def array_items_def array_length_def Joi_array_def split: sum.splits)
  from validate_items_binary [OF this] xs v p show ?thesis by simp
qed

lemma putResource_validate_fails:
  assumes "\<not> (\<exists>x y. q ''arg'' = Some (PArr [x, y])
                \<and> (\<exists>s. x = PStr s \<or> x = PBuf s) \<and> (\<exists>s. y = PStr s \<or> y = PBuf s))"
  shows "\<exists>msg. validate_object putResource_validate_options (putResource_validate_query Joi) q = Inl msg"
proof -
  obtain msg where "required (array_items Joi_binary (array_length 2 Joi_array)) (q ''arg'') = Inl msg"
    using put_arg_schema_accepts [of "q ''arg''"] assms
    by (cases "required (array_items Joi_binary (array_length 2 Joi_array)) (q ''arg'')") auto
  then show ?thesis
    by (simp add: validate_object_def putResource_validate_query_def Joi_object_keys_def)
qed

text \<open>
  After the renames, the named field holds the value of \<open>arg\<close>; validation then
  converts that value.
\<close>

lemma findPeer_arg:
  assumes "q ''arg'' = Some a"
    and "validate_object findPeerResource_validate_options (findPeerResource_validate_query Joi) q = Inr v"
  shows "v ''peerId'' = Some a"
proof -
  have "required Joi_string (Some a) = Inr (v ''peerId'')"
    by (rule validated_field_after_renames [OF _ _ _ _ _ assms(2), where ?q1.0 = "(q(''peerId'' \<mapsto> a))(''arg'' := None)"])
      (simp_all add: findPeerResource_validate_query_def findPeerResource_validate_options_def
        rename_def Joi_object_keys_def rename_defaults_def assms(1))
  then show ?thesis by (simp add: required_string_value)
qed

lemma query_arg:
  assumes "q ''arg'' = Some a"
    and "validate_object queryResource_validate_options (queryResource_validate_query Joi) q = Inr v"
  shows "v ''peerId'' = Some a"
proof -
  have "required Joi_string (Some a) = Inr (v ''peerId'')"
    by (rule validated_field_after_renames [OF _ _ _ _ _ assms(2), where ?q1.0 = "(q(''peerId'' \<mapsto> a))(''arg'' := None)"])
      (simp_all add: queryResource_validate_query_def queryResource_validate_options_def
        rename_def Joi_object_keys_def rename_defaults_def assms(1))
  then show ?thesis by (simp add: required_string_value)
qed

lemma provide_arg:
  assumes "q ''arg'' = Some a"
    and "validate_object provideResource_validate_options (provideResource_validate_query Joi) q = Inr v"
  shows "Joi_cid Joi (Some a) = Inr (v ''cid'')"
proof -
  have "required (Joi_cid Joi) (Some a) = Inr (v ''cid'')"
    by (rule validated_field_after_renames [OF _ _ _ _ _ assms(2), where ?q1.0 = "(q(''cid'' \<mapsto> a))(''arg'' := None)"])
      (simp_all add: provideResource_validate_query_def provideResource_validate_options_def
        rename_def Joi_object_keys_def rename_defaults_def assms(1))
  then show ?thesis by (simp add: required_some)
qed

lemma get_arg:
  assumes "q ''arg'' = Some a"
    and "validate_object getResource_validate_options (getResource_validate_query Joi) q = Inr v"
  shows "Joi_binary (Some a) = Inr (v ''buffer'')"
proof -
  have "required Joi_binary (Some a) = Inr (v ''buffer'')"
    by (rule validated_field_after_renames [OF _ _ _ _ _ assms(2), where ?q1.0 = "(q(''buffer'' \<mapsto> a))(''arg'' := None)"])
      (simp_all add: getResource_validate_query_def getResource_validate_options_def
        rename_def Joi_object_keys_def rename_defaults_def assms(1))
  then show ?thesis by (simp add: required_some)
qed

lemma findProvs_renames:
  "renames (findProvsResource_validate_query Joi) =
     [(''arg'', ''cid'', \<lparr>keep_alias = False, multiple = False, override = True, ignoreUndefined = True\<rparr>),
      (''num-providers'', ''numProviders'', \<lparr>keep_alias = False, multiple = False, override = True, ignoreUndefined = True\<rparr>)]"
  by (simp add: findProvsResource_validate_query_def rename_def Joi_object_keys_def rename_defaults_def)

lemma findProvs_keys:
  "keys (findProvsResource_validate_query Joi) =
     [(''cid'', required (Joi_cid Joi)),
      (''numProviders'', default_to (PNum 20) (Joi_number_integer Joi)),
      (''timeout'', Joi_timeout Joi)]"
  by (simp add: findProvsResource_validate_query_def rename_def Joi_object_keys_def)

lemma findProvs_renamed:
  assumes "q ''arg'' = Some a"
  shows "\<exists>q1. apply_renames (renames (findProvsResource_validate_query Joi)) [] q = Inr q1 \<and> q1 ''cid'' = Some a"
proof (cases "q ''num-providers''")
  case None
  with assms show ?thesis
    by (simp add: findProvs_renames)
next
  case (Some n)
  with assms show ?thesis
    by (simp add: findProvs_renames)
qed

lemma findProvs_arg:
  assumes "q ''arg'' = Some a"
    and "validate_object findProvsResource_validate_options (findProvsResource_validate_query Joi) q = Inr v"
  shows "Joi_cid Joi (Some a) = Inr (v ''cid'')"
proof -
  from findProvs_renamed [of q a Joi] assms(1) obtain q1 where
    r: "apply_renames (renames (findProvsResource_validate_query Joi)) [] q = Inr q1"
    and c: "q1 ''cid'' = Some a" by blast
  have d: "distinct (map fst (keys (findProvsResource_validate_query Joi)))"
    by (simp add: findProvs_keys)
  have m: "(''cid'', required (Joi_cid Joi)) \<in> set (keys (findProvsResource_validate_query Joi))"
    by (simp add: findProvs_keys)
  have s: "stripUnknown findProvsResource_validate_options"
    by (simp add: findProvsResource_validate_options_def)
  from validated_field_after_renames [OF r c d m s assms(2)]
  show ?thesis by (simp add: required_some)
qed

section \<open>The handlers of the DHT API\<close>

text \<open>
  C2, as the handlers have it. On \<open>findPeer\<close> an engine failure whose \<open>code\<close> is
  \<open>ERR_LOOKUP_FAILED\<close> becomes \<open>Boom.notFound\<close> and any other engine failure is
  passed to \<open>Boom.boomify\<close>, both with the failure's string form as message. The
  handlers of \<open>get\<close>, \<open>provide\<close> and \<open>put\<close> have no \<open>catch\<close>: an engine failure leaves
  them as the error that was thrown, unchanged.
\<close>

theorem failures_translated_by_findPeer_only:
  assumes "dht_findPeer (query request_a ''peerId'')
             \<lparr>signal = app_signal request_a, timeout = query request_a ''timeout''\<rparr> e_a = (Inl err_a, e_a')"
    and "dht_get (query request_b ''buffer'')
             \<lparr>signal = app_signal request_b, timeout = query request_b ''timeout''\<rparr> e_b = (Inl err_b, e_b')"
    and "dht_provide (query request_c ''cid'')
             \<lparr>signal = app_signal request_c, timeout = query request_c ''timeout''\<rparr> e_c = (Inl err_c, e_c')"
    and "iterate_param (query request_d ''arg'') = Inr items"
    and "dht_put (nth_or_undefined items 0) (nth_or_undefined items 1)
             \<lparr>signal = app_signal request_d, timeout = query request_d ''timeout''\<rparr> e_d = (Inl err_d, e_d')"
  shows "findPeerResource_handler id_toString addr_toString dht_findPeer request_a e_a =
           (Inl (if code err_a = Some ''ERR_LOOKUP_FAILED''
                 then Boom_notFound (toString err_a)
                 else Boom_boomify err_a (toString err_a)), e_a')
       \<and> getResource_handler value_toString dht_get request_b e_b = (Inl (Thrown err_b), e_b')
       \<and> provideResource_handler dht_provide request_c e_c = (Inl (Thrown err_c), e_c')
       \<and> putResource_handler dht_put request_d e_d = (Inl (Thrown err_d), e_d')"
  using assms
  by (simp add: findPeerResource_handler_def getResource_handler_def provideResource_handler_def
      putResource_handler_def)

theorem failures_translated_by_findPeer_only_witness:
  "findPeerResource_handler (\<lambda>p :: string. p) (\<lambda>a :: string. a)
      (\<lambda>peerId opts e. (Inl \<lparr>name = ''Error'', message = ''lookup failed'', code = Some ''ERR_LOOKUP_FAILED''\<rparr>, e)) \<lparr>app_signal = (\<lambda>k. False), query = [''peerId'' \<mapsto> PStr ''QmTarget'' :: unit param]\<rparr> ()
     = (Inl (Boom_notFound ''Error: lookup failed''), ())
   \<and> getResource_handler (\<lambda>v :: string. v)
      (\<lambda>buffer opts e. (Inl \<lparr>name = ''Error'', message = ''not found'', code = None\<rparr>, e)) \<lparr>app_signal = (\<lambda>k. False), query = [''buffer'' \<mapsto> PBuf ''key'' :: unit param]\<rparr> ()
     = (Inl (Thrown \<lparr>name = ''Error'', message = ''not found'', code = None\<rparr>), ())
   \<and> provideResource_handler
      (\<lambda>cid opts e. (Inl \<lparr>name = ''Error'', message = ''not found'', code = None\<rparr>, e)) \<lparr>app_signal = (\<lambda>k. False), query = [''cid'' \<mapsto> PStr ''QmContent'' :: unit param]\<rparr> ()
     = (Inl (Thrown \<lparr>name = ''Error'', message = ''not found'', code = None\<rparr>), ())
   \<and> putResource_handler
      (\<lambda>key value opts e. (Inl \<lparr>name = ''Error'', message = ''not found'', code = None\<rparr>, e)) \<lparr>app_signal = (\<lambda>k. False), query = [''arg'' \<mapsto> PArr [PBuf ''key'', PBuf ''value''] :: unit param]\<rparr> ()
     = (Inl (Thrown \<lparr>name = ''Error'', message = ''not found'', code = None\<rparr>), ())"
proof -
  from failures_translated_by_findPeer_only
    [where dht_findPeer = "\<lambda>peerId opts e. (Inl \<lparr>name = ''Error'', message = ''lookup failed'', code = Some ''ERR_LOOKUP_FAILED''\<rparr>, e)"
       and request_a = "\<lparr>app_signal = (\<lambda>k. False), query = [''peerId'' \<mapsto> PStr ''QmTarget'' :: unit param]\<rparr>"
       and e_a = "()"
       and err_a = "\<lparr>name = ''Error'', message = ''lookup failed'', code = Some ''ERR_LOOKUP_FAILED''\<rparr>"
       and e_a' = "()"
       and dht_get = "\<lambda>buffer opts e. (Inl \<lparr>name = ''Error'', message = ''not found'', code = None\<rparr>, e)"
       and request_b = "\<lparr>app_signal = (\<lambda>k. False), query = [''buffer'' \<mapsto> PBuf ''key'' :: unit param]\<rparr>"
       and e_b = "()"
       and err_b = "\<lparr>name = ''Error'', message = ''not found'', code = None\<rparr>"
       and e_b' = "()"
       and dht_provide = "\<lambda>cid opts e. (Inl \<lparr>name = ''Error'', message = ''not found'', code = None\<rparr>, e)"
       and request_c = "\<lparr>app_signal = (\<lambda>k. False), query = [''cid'' \<mapsto> PStr ''QmContent'' :: unit param]\<rparr>"
       and e_c = "()"
       and err_c = "\<lparr>name = ''Error'', message = ''not found'', code = None\<rparr>"
       and e_c' = "()"
       and request_d = "\<lparr>app_signal = (\<lambda>k. False), query = [''arg'' \<mapsto> PArr [PBuf ''key'', PBuf ''value''] :: unit param]\<rparr>"
       and items = "[PBuf ''key'', PBuf ''value'']"
       and dht_put = "\<lambda>key value opts e. (Inl \<lparr>name = ''Error'', message = ''not found'', code = None\<rparr>, e)"
       and err_d = "\<lparr>name = ''Error'', message = ''not found'', code = None\<rparr>"
       and e_d' = "()"
       and id_toString = "\<lambda>p :: string. p"
       and addr_toString = "\<lambda>a :: string. a"
       and value_toString = "\<lambda>v :: string. v"
       and e_d = "()"]
  show ?thesis by (simp add: toString_def iterate_param_def)
qed

text \<open>
  C2 as stated fails on \<open>get\<close>: an engine failure \<open>Error: not found\<close> leaves the
  handler as the thrown error itself, not as a \<open>Boom\<close> server error built with the
  failure's string form; the message the thrown error carries is \<open>not found\<close>, its
  string form is \<open>Error: not found\<close>.
\<close>

theorem get_failure_not_translated:
  "fst (getResource_handler (\<lambda>v :: string. v)
          (\<lambda>buffer opts e. (Inl \<lparr>name = ''Error'', message = ''not found'', code = None\<rparr>, e))
          \<lparr>app_signal = (\<lambda>k. False), query = [''buffer'' \<mapsto> PBuf ''key'' :: unit param]\<rparr> ())
     = Inl (Thrown \<lparr>name = ''Error'', message = ''not found'', code = None\<rparr>)
   \<and> fst (getResource_handler (\<lambda>v :: string. v)
          (\<lambda>buffer opts e. (Inl \<lparr>name = ''Error'', message = ''not found'', code = None\<rparr>, e))
          \<lparr>app_signal = (\<lambda>k. False), query = [''buffer'' \<mapsto> PBuf ''key'' :: unit param]\<rparr> ())
     \<noteq> Inl (Boom_boomify \<lparr>name = ''Error'', message = ''not found'', code = None\<rparr>
              (toString \<lparr>name = ''Error'', message = ''not found'', code = None\<rparr>))
   \<and> toString \<lparr>name = ''Error'', message = ''not found'', code = None\<rparr> = ''Error: not found''
   \<and> message \<lparr>name = ''Error'', message = ''not found'', code = None\<rparr>
       \<noteq> toString \<lparr>name = ''Error'', message = ''not found'', code = None\<rparr>"
  by (simp add: getResource_handler_def toString_def)



text \<open>
  C4. When the engine's \<open>findPeer\<close> resolves with a peer, the response body is the
  one envelope of type 2 whose only entry has the string form of the peer's id as
  \<open>ID\<close> and the string forms of its addresses as \<open>Addrs\<close>, the empty list when the
  peer has no \<open>addrs\<close>.
\<close>

theorem findPeer_success_envelope:
  assumes "dht_findPeer (query request ''peerId'')
             \<lparr>signal = app_signal request, timeout = query request ''timeout''\<rparr> e = (Inr res, e')"
  shows "findPeerResource_handler id_toString addr_toString dht_findPeer request e =
           (Inr (Response
              (JObj
                 [(''Responses'',
                     JArr [JObj [(''ID'', JStr (id_toString (id' res))),
                                 (''Addrs'',
                                    JArr (map (\<lambda>a. JStr (addr_toString a))
                                            (case addrs res of None \<Rightarrow> [] | Some as \<Rightarrow> as)))]]),
                  (''Type'', JNum 2)])), e')"
  using assms
  by (simp add: findPeerResource_handler_def findPeer_envelope_def or_empty_def)

theorem findPeer_success_envelope_witness:
  "findPeerResource_handler (\<lambda>p. p) (\<lambda>a. a)
       (\<lambda>peerId opts calls. (Inr \<lparr>id' = ''QmPeer'', addrs = None :: string list option\<rparr>, Suc calls))
       \<lparr>app_signal = (\<lambda>k. False), query = [''peerId'' \<mapsto> PStr ''QmTarget'' :: unit param]\<rparr> (0 :: nat)
     = (Inr (Response (JObj [(''Responses'', JArr [JObj [(''ID'', JStr ''QmPeer''), (''Addrs'', JArr [])]]),
                             (''Type'', JNum 2)])), 1)"
proof -
  from findPeer_success_envelope
    [where dht_findPeer = "\<lambda>peerId opts calls. (Inr \<lparr>id' = ''QmPeer'', addrs = None :: string list option\<rparr>, Suc calls)"
       and request = "\<lparr>app_signal = (\<lambda>k. False), query = [''peerId'' \<mapsto> PStr ''QmTarget'' :: unit param]\<rparr>"
       and e = "0 :: nat"
       and res = "\<lparr>id' = ''QmPeer'', addrs = None\<rparr>"
       and e' = "1::nat"
       and id_toString = "\<lambda>p. p"
       and addr_toString = "\<lambda>a. a"]
  show ?thesis by simp
qed

text \<open>
  C5, as the handlers have it. The envelopes of \<open>findPeer\<close>, \<open>findProvs\<close> and
  \<open>get\<close> carry exactly one type discriminator (2, 4 and 5) and a payload of the shape
  that goes with it; an envelope of \<open>query\<close> is an object with the single field \<open>ID\<close>
  and carries no discriminator.
\<close>

theorem envelopes_carry_discriminator_except_query:
  assumes "findPeerResource_handler id_toString addr_toString dht_findPeer request_a e_a = (Inr (Response env_a), e_a')"
    and "findProvsResource_handler fuel_b id_toString addr_toString dht_findProvs request_b = Some r_b"
    and "getResource_handler value_toString dht_get request_c e_c = (Inr (Response env_c), e_c')"
    and "queryResource_handler fuel_d id_toString dht_query request_d = Some r_d"
  shows "wire_envelope_invariant env_a \<and> discriminators env_a = [JNum 2]
       \<and> list_all (\<lambda>env. wire_envelope_invariant env \<and> discriminators env = [JNum 4]) (written r_b)
       \<and> wire_envelope_invariant env_c \<and> discriminators env_c = [JNum 5]
       \<and> list_all (\<lambda>env. discriminators env = [] \<and> (\<exists>i. env = JObj [(''ID'', JStr i)])) (written r_d)"
proof -
  from assms(1) obtain res where "env_a = findPeer_envelope id_toString addr_toString res"
    by (auto simp: findPeerResource_handler_def Let_def split: prod.splits sum.splits if_splits)
  then have 1: "wire_envelope_invariant env_a \<and> discriminators env_a = [JNum 2]"
    by (simp add: findPeer_envelope_invariant)
  from assms(2) obtain c2 where "r_b = map_result (findProvs_envelope id_toString addr_toString) c2"
    by (auto simp: findProvs_handler_map)
  then have "written r_b = map (findProvs_envelope id_toString addr_toString) (written c2)"
    by (simp add: map_result_def)
  then have 2: "list_all (\<lambda>env. wire_envelope_invariant env \<and> discriminators env = [JNum 4]) (written r_b)"
    by (simp add: list_all_map_const findProvs_envelope_invariant)
  from assms(3) obtain res3 where "env_c = get_envelope value_toString res3"
    by (auto simp: getResource_handler_def Let_def split: prod.splits sum.splits)
  then have 3: "wire_envelope_invariant env_c \<and> discriminators env_c = [JNum 5]"
    by (simp add: get_envelope_invariant)
  have 4: "list_all (\<lambda>env. discriminators env = [] \<and> (\<exists>i. env = JObj [(''ID'', JStr i)])) (written r_d)"
    using assms(4)
    by (auto simp: query_handler_map map_result_def query_envelope_no_discriminator
        intro!: list_all_map_const) (simp add: query_envelope_def)
  from 1 2 3 4 show ?thesis by simp
qed

theorem envelopes_carry_discriminator_except_query_witness:
  "wire_envelope_invariant (JObj [(''Responses'', JArr [JObj [(''ID'', JStr ''QmPeer''), (''Addrs'', JArr [JStr ''/ip4/10.0.0.1/tcp/4001''])]]), (''Type'', JNum 2)])
   \<and> discriminators (JObj [(''Responses'', JArr [JObj [(''ID'', JStr ''QmPeer''), (''Addrs'', JArr [JStr ''/ip4/10.0.0.1/tcp/4001''])]]), (''Type'', JNum 2)]) = [JNum 2]
   \<and> list_all (\<lambda>env. wire_envelope_invariant env \<and> discriminators env = [JNum 4])
        [JObj [(''Responses'', JArr [JObj [(''ID'', JStr ''QmA''), (''Addrs'', JArr [])]]), (''Type'', JNum 4)]]
   \<and> wire_envelope_invariant (JObj [(''Extra'', JStr ''value''), (''Type'', JNum 5)])
   \<and> discriminators (JObj [(''Extra'', JStr ''value''), (''Type'', JNum 5)]) = [JNum 5]
   \<and> list_all (\<lambda>env. discriminators env = [] \<and> (\<exists>i. env = JObj [(''ID'', JStr i)]))
        [JObj [(''ID'', JStr ''QmA'')]]"
proof -
  have 1: "findPeerResource_handler (\<lambda>p. p) (\<lambda>a. a)
             (\<lambda>peerId opts e. (Inr \<lparr>id' = ''QmPeer'', addrs = Some [''/ip4/10.0.0.1/tcp/4001'']\<rparr>, e)) \<lparr>app_signal = (\<lambda>k. False), query = [''peerId'' \<mapsto> PStr ''QmTarget'' :: unit param]\<rparr> ()
           = (Inr (Response (JObj [(''Responses'', JArr [JObj [(''ID'', JStr ''QmPeer''), (''Addrs'', JArr [JStr ''/ip4/10.0.0.1/tcp/4001''])]]), (''Type'', JNum 2)])), ())"
    by (simp add: findPeerResource_handler_def findPeer_envelope_def or_empty_def)
  have 2: "findProvsResource_handler (Suc (Suc 0)) (\<lambda>p. p) (\<lambda>a. a)
             (\<lambda>cid opts. ((\<lambda>s. case s of [] \<Rightarrow> Done | x # xs \<Rightarrow> Yield x xs), [\<lparr>id' = ''QmA'', addrs = None :: string list option\<rparr>])) \<lparr>app_signal = (\<lambda>k. False), query = [''cid'' \<mapsto> PStr ''QmContent'' :: unit param]\<rparr>
           = Some \<lparr>written = [JObj [(''Responses'', JArr [JObj [(''ID'', JStr ''QmA''), (''Addrs'', JArr [])]]), (''Type'', JNum 4)]], reads = 2, ending = Completed\<rparr>"
    by (simp add: findProvsResource_handler_def streamResponse_def pipe_def it_map_def
        findProvs_call_def findProvs_envelope_def or_empty_def)
  have 3: "getResource_handler (\<lambda>v. v) (\<lambda>buffer opts e. (Inr ''value'', e)) \<lparr>app_signal = (\<lambda>k. False), query = [''buffer'' \<mapsto> PBuf ''key'' :: unit param]\<rparr> ()
           = (Inr (Response (JObj [(''Extra'', JStr ''value''), (''Type'', JNum 5)])), ())"
    by (simp add: getResource_handler_def get_envelope_def)
  have 4: "queryResource_handler (Suc (Suc 0)) (\<lambda>p. p)
             (\<lambda>peerId opts. ((\<lambda>s. case s of [] \<Rightarrow> Done | x # xs \<Rightarrow> Yield x xs), [\<lparr>id' = ''QmA'', addrs = None :: string list option\<rparr>])) \<lparr>app_signal = (\<lambda>k. False), query = [''peerId'' \<mapsto> PStr ''QmTarget'' :: unit param]\<rparr>
           = Some \<lparr>written = [JObj [(''ID'', JStr ''QmA'')]], reads = 2, ending = Completed\<rparr>"
    by (simp add: queryResource_handler_def streamResponse_def pipe_def it_map_def
        query_call_def query_envelope_def)
  from envelopes_carry_discriminator_except_query [OF 1 2 3 4] show ?thesis by simp
qed

text \<open>
  C5 as stated fails on \<open>query\<close>: for an engine that finds the one peer \<open>QmA\<close> the
  response is the envelope \<open>{ ID: 'QmA' }\<close>, which has no field \<open>Type\<close>.
\<close>

theorem query_envelope_has_no_discriminator:
  "queryResource_handler (Suc (Suc 0)) (\<lambda>p. p)
      (\<lambda>peerId opts. ((\<lambda>s. case s of [] \<Rightarrow> Done | x # xs \<Rightarrow> Yield x xs), [\<lparr>id' = ''QmA'', addrs = None :: string list option\<rparr>])) \<lparr>app_signal = (\<lambda>k. False), query = [''peerId'' \<mapsto> PStr ''QmTarget'' :: unit param]\<rparr>
     = Some \<lparr>written = [JObj [(''ID'', JStr ''QmA'')]], reads = 2, ending = Completed\<rparr>
   \<and> discriminators (JObj [(''ID'', JStr ''QmA'')]) = []
   \<and> \<not> wire_envelope_invariant (JObj [(''ID'', JStr ''QmA'')])"
  by (simp add: queryResource_handler_def streamResponse_def pipe_def it_map_def query_call_def
      query_envelope_def discriminators_def wire_envelope_invariant_def)

text \<open>
  C6. When the \<open>arg\<close> of a \<open>put\<close> request is not an array of exactly two strings or
  buffers (it is missing, given once, or given three times), the route answers bad
  request, whatever the engine's \<open>put\<close> is and without a change of the engine's
  state: \<open>put\<close> is not called.
\<close>

theorem put_arity_checked_before_engine:
  assumes "\<not> (\<exists>x y. query request ''arg'' = Some (PArr [x, y])
                \<and> (\<exists>s. x = PStr s \<or> x = PBuf s) \<and> (\<exists>s. y = PStr s \<or> y = PBuf s))"
  shows "\<exists>msg. \<forall>dht_put e. putResource Joi dht_put request e = (Inl (Boom_badRequest msg), e)"
  using putResource_validate_fails [of "query request" Joi] assms
  by (auto simp: putResource_def route_def)

theorem put_arity_checked_before_engine_witness:
  "putResource \<lparr>Joi_cid = (\<lambda>v. case v of None \<Rightarrow> Inr None | Some (PStr s) \<Rightarrow> Inr (Some (PCid s)) | Some _ \<Rightarrow> Inl ''must be a CID''), Joi_timeout = (\<lambda>v. Inr v), Joi_number_integer = (\<lambda>v. Inr v)\<rparr> (\<lambda>key value opts calls. (Inr (), Suc calls)) \<lparr>app_signal = (\<lambda>k. False), query = [''arg'' \<mapsto> PArr [PStr ''key''] :: string param]\<rparr> (0 :: nat)
     = (Inl (Boom_badRequest ''arg does not contain the required number of items''), 0)
   \<and> putResource \<lparr>Joi_cid = (\<lambda>v. case v of None \<Rightarrow> Inr None | Some (PStr s) \<Rightarrow> Inr (Some (PCid s)) | Some _ \<Rightarrow> Inl ''must be a CID''), Joi_timeout = (\<lambda>v. Inr v), Joi_number_integer = (\<lambda>v. Inr v)\<rparr> (\<lambda>key value opts calls. (Inr (), Suc calls)) \<lparr>app_signal = (\<lambda>k. False), query = [''arg'' \<mapsto> PArr [PStr ''key'', PStr ''value'', PStr ''extra''] :: string param]\<rparr> (0 :: nat)
     = (Inl (Boom_badRequest ''arg does not contain the required number of items''), 0)"
proof -
  have h1: "\<not> (\<exists>x y. query \<lparr>app_signal = (\<lambda>k. False), query = [''arg'' \<mapsto> PArr [PStr ''key''] :: string param]\<rparr> ''arg'' = Some (PArr [x, y])
                \<and> (\<exists>s. x = PStr s \<or> x = PBuf s) \<and> (\<exists>s. y = PStr s \<or> y = PBuf s))"
    by simp
  have h3: "\<not> (\<exists>x y. query \<lparr>app_signal = (\<lambda>k. False), query = [''arg'' \<mapsto> PArr [PStr ''key'', PStr ''value'', PStr ''extra''] :: string param]\<rparr> ''arg'' = Some (PArr [x, y])
                \<and> (\<exists>s. x = PStr s \<or> x = PBuf s) \<and> (\<exists>s. y = PStr s \<or> y = PBuf s))"
    by simp
  from put_arity_checked_before_engine [OF h1, of "\<lparr>Joi_cid = (\<lambda>v. case v of None \<Rightarrow> Inr None | Some (PStr s) \<Rightarrow> Inr (Some (PCid s)) | Some _ \<Rightarrow> Inl ''must be a CID''), Joi_timeout = (\<lambda>v. Inr v), Joi_number_integer = (\<lambda>v. Inr v)\<rparr>"]
  obtain msg1 where a1: "\<forall>dht_put (e :: nat). putResource \<lparr>Joi_cid = (\<lambda>v. case v of None \<Rightarrow> Inr None | Some (PStr s) \<Rightarrow> Inr (Some (PCid s)) | Some _ \<Rightarrow> Inl ''must be a CID''), Joi_timeout = (\<lambda>v. Inr v), Joi_number_integer = (\<lambda>v. Inr v)\<rparr> dht_put \<lparr>app_signal = (\<lambda>k. False), query = [''arg'' \<mapsto> PArr [PStr ''key''] :: string param]\<rparr> e = (Inl (Boom_badRequest msg1), e)" ..
  from put_arity_checked_before_engine [OF h3, of "\<lparr>Joi_cid = (\<lambda>v. case v of None \<Rightarrow> Inr None | Some (PStr s) \<Rightarrow> Inr (Some (PCid s)) | Some _ \<Rightarrow> Inl ''must be a CID''), Joi_timeout = (\<lambda>v. Inr v), Joi_number_integer = (\<lambda>v. Inr v)\<rparr>"]
  obtain msg3 where a3: "\<forall>dht_put (e :: nat). putResource \<lparr>Joi_cid = (\<lambda>v. case v of None \<Rightarrow> Inr None | Some (PStr s) \<Rightarrow> Inr (Some (PCid s)) | Some _ \<Rightarrow> Inl ''must be a CID''), Joi_timeout = (\<lambda>v. Inr v), Joi_number_integer = (\<lambda>v. Inr v)\<rparr> dht_put \<lparr>app_signal = (\<lambda>k. False), query = [''arg'' \<mapsto> PArr [PStr ''key'', PStr ''value'', PStr ''extra''] :: string param]\<rparr> e = (Inl (Boom_badRequest msg3), e)" ..
  note m1 = a1 [rule_format, of "(\<lambda>key value opts calls. (Inr (), Suc calls))" 0]
  note m3 = a3 [rule_format, of "(\<lambda>key value opts calls. (Inr (), Suc calls))" 0]
  have e1: "putResource \<lparr>Joi_cid = (\<lambda>v. case v of None \<Rightarrow> Inr None | Some (PStr s) \<Rightarrow> Inr (Some (PCid s)) | Some _ \<Rightarrow> Inl ''must be a CID''), Joi_timeout = (\<lambda>v. Inr v), Joi_number_integer = (\<lambda>v. Inr v)\<rparr> (\<lambda>key value opts calls. (Inr (), Suc calls)) \<lparr>app_signal = (\<lambda>k. False), query = [''arg'' \<mapsto> PArr [PStr ''key''] :: string param]\<rparr> (0 :: nat)
     = (Inl (Boom_badRequest ''arg does not contain the required number of items''), 0)"
    by (simp add: putResource_def route_def validate_object_def putResource_validate_query_def
        Joi_object_keys_def required_def array_items_def array_length_def Joi_array_def)
  have e3: "putResource \<lparr>Joi_cid = (\<lambda>v. case v of None \<Rightarrow> Inr None | Some (PStr s) \<Rightarrow> Inr (Some (PCid s)) | Some _ \<Rightarrow> Inl ''must be a CID''), Joi_timeout = (\<lambda>v. Inr v), Joi_number_integer = (\<lambda>v. Inr v)\<rparr> (\<lambda>key value opts calls. (Inr (), Suc calls)) \<lparr>app_signal = (\<lambda>k. False), query = [''arg'' \<mapsto> PArr [PStr ''key'', PStr ''value'', PStr ''extra''] :: string param]\<rparr> (0 :: nat)
     = (Inl (Boom_badRequest ''arg does not contain the required number of items''), 0)"
    by (simp add: putResource_def route_def validate_object_def putResource_validate_query_def
        Joi_object_keys_def required_def array_items_def array_length_def Joi_array_def)
  from m1 e1 have "msg1 = ''arg does not contain the required number of items''" by simp
  moreover from m3 e3 have "msg3 = ''arg does not contain the required number of items''" by simp
  ultimately show ?thesis using m1 m3 by simp
qed

text \<open>
  C7. When the signal has fired by the time \<open>N\<close> events have been produced, the
  streaming response of \<open>findProvs\<close> and of \<open>query\<close> returns (given more than \<open>N\<close>
  units of fuel) having called \<open>next()\<close> on the engine's sequence at most \<open>N\<close> times
  and written at most \<open>N\<close> envelopes.
\<close>

theorem cancellation_stops_reads_and_writes:
  assumes "app_signal request N" and "N < fuel"
  shows "(\<exists>r. findProvsResource_handler fuel id_toString addr_toString dht_findProvs request = Some r
              \<and> length (written r) \<le> N \<and> reads r \<le> N)
       \<and> (\<exists>r. queryResource_handler fuel id_toString dht_query request = Some r
              \<and> length (written r) \<le> N \<and> reads r \<le> N)"
  using streamResponse_cancelled [OF assms, of "findProvs_call dht_findProvs request"]
    streamResponse_cancelled [OF assms, of "query_call dht_query request"]
  by (auto simp: findProvs_handler_map query_handler_map map_result_def)

theorem cancellation_stops_reads_and_writes_witness:
  "app_signal \<lparr>app_signal = (\<lambda>k. 2 \<le> k), query = [''cid'' \<mapsto> PStr ''QmContent'' :: unit param, ''peerId'' \<mapsto> PStr ''QmTarget'']\<rparr> 2
   \<and> 2 < Suc (Suc (Suc 0))
   \<and> (\<exists>r. findProvsResource_handler (Suc (Suc (Suc 0))) (\<lambda>p. p) (\<lambda>a. a)
            (\<lambda>cid opts. ((\<lambda>s. case s of [] \<Rightarrow> Done | x # xs \<Rightarrow> Yield x xs), [\<lparr>id' = ''QmA'', addrs = Some [''/ip4/10.0.0.1/tcp/4001'']\<rparr>, \<lparr>id' = ''QmB'', addrs = None\<rparr>, \<lparr>id' = ''QmC'', addrs = None\<rparr>]))
            \<lparr>app_signal = (\<lambda>k. 2 \<le> k), query = [''cid'' \<mapsto> PStr ''QmContent'' :: unit param, ''peerId'' \<mapsto> PStr ''QmTarget'']\<rparr> = Some r
          \<and> length (written r) \<le> 2 \<and> reads r \<le> 2)
   \<and> (\<exists>r. queryResource_handler (Suc (Suc (Suc 0))) (\<lambda>p. p)
            (\<lambda>peerId opts. ((\<lambda>s. case s of [] \<Rightarrow> Done | x # xs \<Rightarrow> Yield x xs), [\<lparr>id' = ''QmA'', addrs = Some [''/ip4/10.0.0.1/tcp/4001'']\<rparr>, \<lparr>id' = ''QmB'', addrs = None\<rparr>, \<lparr>id' = ''QmC'', addrs = None\<rparr>]))
            \<lparr>app_signal = (\<lambda>k. 2 \<le> k), query = [''cid'' \<mapsto> PStr ''QmContent'' :: unit param, ''peerId'' \<mapsto> PStr ''QmTarget'']\<rparr> = Some r
          \<and> length (written r) \<le> 2 \<and> reads r \<le> 2)"
proof -
  have s: "app_signal \<lparr>app_signal = (\<lambda>k. 2 \<le> k), query = [''cid'' \<mapsto> PStr ''QmContent'' :: unit param, ''peerId'' \<mapsto> PStr ''QmTarget'']\<rparr> 2"
    by simp
  have f: "2 < Suc (Suc (Suc 0))" by simp
  from cancellation_stops_reads_and_writes [OF s f] s f show ?thesis by blast
qed

text \<open>
  C8. When the engine's sequence for \<open>query\<close> is empty, the streaming response
  returns with no envelope written and without a failure: it has completed, or it
  was cancelled before the first read.
\<close>

theorem query_empty_sequence_ends_cleanly:
  assumes "fst (query_call dht_query request) (snd (query_call dht_query request)) = Done"
  shows "queryResource_handler (Suc fuel) id_toString dht_query request =
           Some \<lparr>written = [],
                 reads = (if app_signal request 0 then 0 else 1),
                 ending = (if app_signal request 0 then Cancelled else Completed)\<rparr>"
  using assms
  by (simp add: query_handler_map streamResponse_pump map_result_def)

theorem query_empty_sequence_ends_cleanly_witness:
  "queryResource_handler (Suc 0) (\<lambda>p :: string. p)
      (\<lambda>peerId opts. ((\<lambda>s. case s of [] \<Rightarrow> Done | x # xs \<Rightarrow> Yield x xs), [] :: (string, string) peer_info list))
      \<lparr>app_signal = (\<lambda>k. False), query = [''peerId'' \<mapsto> PStr ''QmTarget'' :: unit param]\<rparr>
     = Some \<lparr>written = [], reads = 1, ending = Completed\<rparr>"
proof -
  have d: "fst (query_call (\<lambda>peerId opts. ((\<lambda>s. case s of [] \<Rightarrow> Done | x # xs \<Rightarrow> Yield x xs), [] :: (string, string) peer_info list)) \<lparr>app_signal = (\<lambda>k. False), query = [''peerId'' \<mapsto> PStr ''QmTarget'' :: unit param]\<rparr>)
             (snd (query_call (\<lambda>peerId opts. ((\<lambda>s. case s of [] \<Rightarrow> Done | x # xs \<Rightarrow> Yield x xs), [] :: (string, string) peer_info list)) \<lparr>app_signal = (\<lambda>k. False), query = [''peerId'' \<mapsto> PStr ''QmTarget'' :: unit param]\<rparr>)) = Done"
    by (simp add: query_call_def)
  from query_empty_sequence_ends_cleanly [OF d, of 0 "\<lambda>p. p"] show ?thesis by simp
qed

text \<open>
  C10. When a request has the parameter \<open>arg\<close>, the validated value of the named
  field (\<open>peerId\<close> for \<open>findPeer\<close> and \<open>query\<close>, \<open>cid\<close> for \<open>findProvs\<close> and
  \<open>provide\<close>, \<open>buffer\<close> for \<open>get\<close>) is the value of \<open>arg\<close>, as the field's schema
  converts it, whatever the request gave for the named field itself.
\<close>

theorem arg_overrides_named_parameter:
  assumes "q ''arg'' = Some a"
  shows "(validate_object findPeerResource_validate_options (findPeerResource_validate_query Joi) q = Inr v1
            \<longrightarrow> v1 ''peerId'' = Some a)
       \<and> (validate_object queryResource_validate_options (queryResource_validate_query Joi) q = Inr v2
            \<longrightarrow> v2 ''peerId'' = Some a)
       \<and> (validate_object findProvsResource_validate_options (findProvsResource_validate_query Joi) q = Inr v3
            \<longrightarrow> Joi_cid Joi (Some a) = Inr (v3 ''cid''))
       \<and> (validate_object provideResource_validate_options (provideResource_validate_query Joi) q = Inr v4
            \<longrightarrow> Joi_cid Joi (Some a) = Inr (v4 ''cid''))
       \<and> (validate_object getResource_validate_options (getResource_validate_query Joi) q = Inr v5
            \<longrightarrow> Joi_binary (Some a) = Inr (v5 ''buffer''))"
  using assms findPeer_arg [of q a Joi v1] query_arg [of q a Joi v2] findProvs_arg [of q a Joi v3]
    provide_arg [of q a Joi v4] get_arg [of q a Joi v5]
  by blast

theorem arg_overrides_named_parameter_witness:
  "(let Joi = \<lparr>Joi_cid = (\<lambda>v. case v of None \<Rightarrow> Inr None | Some (PStr s) \<Rightarrow> Inr (Some (PCid s)) | Some _ \<Rightarrow> Inl ''must be a CID''), Joi_timeout = (\<lambda>v. Inr v), Joi_number_integer = (\<lambda>v. Inr v)\<rparr> :: string joi_extensions;
        q = [''arg'' \<mapsto> PStr ''QmArg'', ''peerId'' \<mapsto> PStr ''QmNamed'', ''cid'' \<mapsto> PStr ''QmNamedCid'', ''buffer'' \<mapsto> PStr ''named'']
    in q ''arg'' = Some (PStr ''QmArg'')
     \<and> (case validate_object findPeerResource_validate_options (findPeerResource_validate_query Joi) q of
           Inl msg \<Rightarrow> None | Inr v \<Rightarrow> v ''peerId'') = Some (PStr ''QmArg'')
     \<and> (case validate_object queryResource_validate_options (queryResource_validate_query Joi) q of
           Inl msg \<Rightarrow> None | Inr v \<Rightarrow> v ''peerId'') = Some (PStr ''QmArg'')
     \<and> (case validate_object findProvsResource_validate_options (findProvsResource_validate_query Joi) q of
           Inl msg \<Rightarrow> None | Inr v \<Rightarrow> v ''cid'') = Some (PCid ''QmArg'')
     \<and> (case validate_object provideResource_validate_options (provideResource_validate_query Joi) q of
           Inl msg \<Rightarrow> None | Inr v \<Rightarrow> v ''cid'') = Some (PCid ''QmArg'')
     \<and> (case validate_object getResource_validate_options (getResource_validate_query Joi) q of
           Inl msg \<Rightarrow> None | Inr v \<Rightarrow> v ''buffer'') = Some (PBuf ''QmArg''))"
proof -
  let ?Joi = "\<lparr>Joi_cid = (\<lambda>v. case v of None \<Rightarrow> Inr None | Some (PStr s) \<Rightarrow> Inr (Some (PCid s)) | Some _ \<Rightarrow> Inl ''must be a CID''), Joi_timeout = (\<lambda>v. Inr v), Joi_number_integer = (\<lambda>v. Inr v)\<rparr> :: string joi_extensions"
  let ?q = "[''arg'' \<mapsto> PStr ''QmArg'', ''peerId'' \<mapsto> PStr ''QmNamed'', ''cid'' \<mapsto> PStr ''QmNamedCid'', ''buffer'' \<mapsto> PStr ''named''] :: string params"
  have a: "?q ''arg'' = Some (PStr ''QmArg'')" by simp
  obtain v1 where v1: "validate_object findPeerResource_validate_options (findPeerResource_validate_query ?Joi) ?q = Inr v1"
    by (simp add: validate_object_def findPeerResource_validate_query_def findPeerResource_validate_options_def queryResource_validate_query_def queryResource_validate_options_def findProvsResource_validate_query_def findProvsResource_validate_options_def provideResource_validate_query_def provideResource_validate_options_def getResource_validate_query_def getResource_validate_options_def rename_def Joi_object_keys_def rename_defaults_def required_def default_to_def Joi_string_def Joi_binary_def)
  obtain v2 where v2: "validate_object queryResource_validate_options (queryResource_validate_query ?Joi) ?q = Inr v2"
    by (simp add: validate_object_def findPeerResource_validate_query_def findPeerResource_validate_options_def queryResource_validate_query_def queryResource_validate_options_def findProvsResource_validate_query_def findProvsResource_validate_options_def provideResource_validate_query_def provideResource_validate_options_def getResource_validate_query_def getResource_validate_options_def rename_def Joi_object_keys_def rename_defaults_def required_def default_to_def Joi_string_def Joi_binary_def)
  obtain v3 where v3: "validate_object findProvsResource_validate_options (findProvsResource_validate_query ?Joi) ?q = Inr v3"
    by (simp add: validate_object_def findPeerResource_validate_query_def findPeerResource_validate_options_def queryResource_validate_query_def queryResource_validate_options_def findProvsResource_validate_query_def findProvsResource_validate_options_def provideResource_validate_query_def provideResource_validate_options_def getResource_validate_query_def getResource_validate_options_def rename_def Joi_object_keys_def rename_defaults_def required_def default_to_def Joi_string_def Joi_binary_def)
  obtain v4 where v4: "validate_object provideResource_validate_options (provideResource_validate_query ?Joi) ?q = Inr v4"
    by (simp add: validate_object_def findPeerResource_validate_query_def findPeerResource_validate_options_def queryResource_validate_query_def queryResource_validate_options_def findProvsResource_validate_query_def findProvsResource_validate_options_def provideResource_validate_query_def provideResource_validate_options_def getResource_validate_query_def getResource_validate_options_def rename_def Joi_object_keys_def rename_defaults_def required_def default_to_def Joi_string_def Joi_binary_def)
  obtain v5 where v5: "validate_object getResource_validate_options (getResource_validate_query ?Joi) ?q = Inr v5"
    by (simp add: validate_object_def findPeerResource_validate_query_def findPeerResource_validate_options_def queryResource_validate_query_def queryResource_validate_options_def findProvsResource_validate_query_def findProvsResource_validate_options_def provideResource_validate_query_def provideResource_validate_options_def getResource_validate_query_def getResource_validate_options_def rename_def Joi_object_keys_def rename_defaults_def required_def default_to_def Joi_string_def Joi_binary_def)
  note t = arg_overrides_named_parameter [of ?q "PStr ''QmArg''" ?Joi v1 v2 v3 v4 v5, OF a]
  from t v1 have r1: "v1 ''peerId'' = Some (PStr ''QmArg'')" by blast
  from t v2 have r2: "v2 ''peerId'' = Some (PStr ''QmArg'')" by blast
  from t v3 have "Joi_cid ?Joi (Some (PStr ''QmArg'')) = Inr (v3 ''cid'')" by blast
  then have r3: "v3 ''cid'' = Some (PCid ''QmArg'')" by simp
  from t v4 have "Joi_cid ?Joi (Some (PStr ''QmArg'')) = Inr (v4 ''cid'')" by blast
  then have r4: "v4 ''cid'' = Some (PCid ''QmArg'')" by simp
  from t v5 have "Joi_binary (Some (PStr ''QmArg'')) = Inr (v5 ''buffer'')" by blast
  then have r5: "v5 ''buffer'' = Some (PBuf ''QmArg'')" by (simp add: Joi_binary_def)
  show ?thesis
    unfolding Let_def v1 v2 v3 v4 v5 using a r1 r2 r3 r4 r5 by simp
qed

end
